theory Spec2Isabelle
  imports Main
begin

section \<open>The dictionary service of dns.toys\<close>

text \<open>
  A shallow embedding of package \<open>dictionary\<close> (the variant with rate limiting, expiry,
  stale reads and snapshots): the cache map, the query path (\<open>Query\<close>, \<open>get\<close>), the
  remote lookup (\<open>fetchAPI\<close>), the dispatcher loop (\<open>runFetchQueue\<close>) and the snapshot
  functions (\<open>Dump\<close>, \<open>Load\<close>).

  What the Go code takes from outside is an explicit input of the model:
  \<^item> the readings of \<open>time.Now()\<close>: a function \<open>clk\<close>, where \<open>clk i\<close> is the reading
    of the \<open>i\<close>-th call made during one invocation;
  \<^item> the outcome of the HTTP exchange (\<open>http_outcome\<close>);
  \<^item> the answer of \<open>limiter.Allow()\<close>;
  \<^item> the library functions whose tables or formats are not part of the package
    (\<open>strings.ToLower\<close>, \<open>Time.AddDate\<close>, the gob encoder and decoder): parameters.
  Effects that do not show in the returned values (lock operations, accesses to the
  map, sends to the channel, outbound requests, log lines) are returned as a list of
  events, in program order.
\<close>

subsection \<open>Time\<close>

text \<open>An instant, in nanoseconds; a \<open>time.Duration\<close> is a number of nanoseconds.\<close>

type_synonym Time = int

definition Minute :: int where
  "Minute = 60 * 1000000000"

definition time_Add :: "Time \<Rightarrow> int \<Rightarrow> Time" where
  "time_Add t dur = t + dur"

definition time_Before :: "Time \<Rightarrow> Time \<Rightarrow> bool" where
  "time_Before t u = (t < u)"

text \<open>The zero \<open>time.Time\<close>: January 1 of year 1, 00:00 UTC.\<close>

definition zeroTime :: Time where
  "zeroTime = - 62135596800 * 1000000000"

subsection \<open>Data\<close>

definition apiUrl :: string where
  "apiUrl = ''https://api.dictionaryapi.dev/api/v2/entries/en/''"

definition apiRateLimit :: nat where
  "apiRateLimit = 10"

definition apiRateLimitBurstSize :: nat where
  "apiRateLimitBurstSize = 1"

record Opt =
  UserAgent :: string

text \<open>The configuration that \<open>rate.NewLimiter\<close> is given.\<close>

record Limiter =
  lim_rate :: nat
  lim_burst :: nat

definition NewLimiter :: "nat \<Rightarrow> nat \<Rightarrow> Limiter" where
  "NewLimiter r b = \<lparr>lim_rate = r, lim_burst = b\<rparr>"

record Meaning =
  PartOfSpeech :: string
  Definition :: string

record entry =
  Word :: string
  Meanings :: "Meaning list"
  Valid :: bool
  Found :: bool
  ExpiresAt :: Time

definition zero_entry :: entry where
  "zero_entry = \<lparr>Word = [], Meanings = [], Valid = False, Found = False, ExpiresAt = zeroTime\<rparr>"

text \<open>
  The structs the response is decoded into. The two anonymous structs of \<open>wordData\<close>
  get a name each, and the fields the prefix \<open>wd\<close>, since \<open>Meaning\<close> and \<open>entry\<close>
  have fields of the same names.
\<close>

record wordDefinition =
  wdDefinition :: string

record wordMeaning =
  wdPartOfSpeech :: string
  wdDefinitions :: "wordDefinition list"

record wordData =
  wdWord :: string
  wdMeanings :: "wordMeaning list"

record wordNotFound =
  Title :: string

text \<open>
  The errors. \<open>errQueued\<close> and \<open>errNotFound\<close> are the two package variables, compared
  by identity in the code; the others are the errors of the library calls and
  \<open>errFetching\<close> the \<open>errors.New("error fetching dictionaryapi")\<close> of the status check.
\<close>

datatype error =
    errQueued
  | errNotFound
  | errNewRequest
  | errClientDo
  | errReadAll
  | errFetching
  | errUnmarshal
  | errGob

record Dictionary =
  data :: "string \<rightharpoonup> entry"
  limiter :: Limiter
  opt :: Opt

datatype event =
    RLock
  | RUnlock
  | Lock
  | Unlock
  | MapRead
  | MapWrite
  | TrySend string
  | HttpDo string string
  | LogRateLimit
  | LogFetchError error

definition New :: "Opt \<Rightarrow> Dictionary" where
  "New opts = \<lparr>data = Map.empty,
            limiter = NewLimiter apiRateLimit apiRateLimitBurstSize,
            opt = opts\<rparr>"

subsection \<open>Decoding the response body\<close>

text \<open>
  The body is kept as the JSON text's syntax tree (\<open>None\<close> when the bytes are not valid
  JSON, which \<open>json.Unmarshal\<close> checks before it decodes anything). Members of an
  object are in the order of the text, duplicates included.
\<close>

datatype json =
    JNull
  | JBool bool
  | JNumber string
  | JString string
  | JArray "json list"
  | JObject "(string \<times> json) list"

type_synonym body = "json option"

text \<open>
  \<open>encoding/json\<close> matches a member's key to a struct field under Unicode simple case
  folding. The field names here are ASCII, so on the UTF-8 bytes of a key this is:
  ASCII letters without their case, U+017F (long s) as \<open>s\<close> and U+212A (Kelvin sign)
  as \<open>k\<close>.
\<close>

definition lowerASCII :: "char \<Rightarrow> char" where
  "lowerASCII c =
     (if 65 \<le> (of_char c :: nat) \<and> (of_char c :: nat) \<le> 90
      then char_of ((of_char c :: nat) + 32) else c)"

fun foldName :: "string \<Rightarrow> string" where
  "foldName (a # b # c # cs) =
     (if a = CHR 0xE2 \<and> b = CHR 0x84 \<and> c = CHR 0xAA then CHR ''k'' # foldName cs
      else if a = CHR 0xC5 \<and> b = CHR 0xBF then CHR ''s'' # foldName (c # cs)
      else lowerASCII a # foldName (b # c # cs))"
| "foldName [a, b] =
     (if a = CHR 0xC5 \<and> b = CHR 0xBF then [CHR ''s''] else [lowerASCII a, lowerASCII b])"
| "foldName [a] = [lowerASCII a]"
| "foldName [] = []"

definition is_field :: "string \<Rightarrow> string \<Rightarrow> bool" where
  "is_field name key = (foldName key = foldName name)"

text \<open>
  Decoding into a Go value that already holds \<open>cur\<close>; \<open>None\<close> is an
  \<open>UnmarshalTypeError\<close>. A JSON null leaves a string or a struct as it is and makes
  a slice nil. An array replaces the slice, each element decoded into a zero value. An
  object is decoded member by member, in order; a key that matches no field is skipped.
  (After a type error the library goes on decoding and returns the error at the end;
  the code drops the decoded value then, so the model stops at the error.)
\<close>

definition unmarshal_string :: "json \<Rightarrow> string \<Rightarrow> string option" where
  "unmarshal_string j cur =
     (case j of JNull \<Rightarrow> Some cur | JString s \<Rightarrow> Some s | _ \<Rightarrow> None)"

definition unmarshal_slice :: "(json \<Rightarrow> 'a option) \<Rightarrow> json \<Rightarrow> 'a list option" where
  "unmarshal_slice elem j =
     (case j of JNull \<Rightarrow> Some [] | JArray js \<Rightarrow> those (map elem js) | _ \<Rightarrow> None)"

fun unmarshal_members ::
  "(string \<Rightarrow> json \<Rightarrow> 'a \<Rightarrow> 'a option) \<Rightarrow> (string \<times> json) list \<Rightarrow> 'a \<Rightarrow> 'a option" where
  "unmarshal_members field [] v = Some v"
| "unmarshal_members field ((k, j) # ms) v =
     (case field k j v of None \<Rightarrow> None | Some v' \<Rightarrow> unmarshal_members field ms v')"

definition unmarshal_struct ::
  "(string \<Rightarrow> json \<Rightarrow> 'a \<Rightarrow> 'a option) \<Rightarrow> json \<Rightarrow> 'a \<Rightarrow> 'a option" where
  "unmarshal_struct field j v =
     (case j of JNull \<Rightarrow> Some v | JObject ms \<Rightarrow> unmarshal_members field ms v | _ \<Rightarrow> None)"

definition wordNotFound_field :: "string \<Rightarrow> json \<Rightarrow> wordNotFound \<Rightarrow> wordNotFound option" where
  "wordNotFound_field k j v =
     (if is_field ''title'' k
      then map_option (\<lambda>s. v\<lparr>Title := s\<rparr>) (unmarshal_string j (Title v))
      else Some v)"

definition wordDefinition_field ::
  "string \<Rightarrow> json \<Rightarrow> wordDefinition \<Rightarrow> wordDefinition option" where
  "wordDefinition_field k j v =
     (if is_field ''definition'' k
      then map_option (\<lambda>s. v\<lparr>wdDefinition := s\<rparr>) (unmarshal_string j (wdDefinition v))
      else Some v)"

definition unmarshal_wordDefinition :: "json \<Rightarrow> wordDefinition option" where
  "unmarshal_wordDefinition j =
     unmarshal_struct wordDefinition_field j \<lparr>wdDefinition = []\<rparr>"

definition wordMeaning_field :: "string \<Rightarrow> json \<Rightarrow> wordMeaning \<Rightarrow> wordMeaning option" where
  "wordMeaning_field k j v =
     (if is_field ''partOfSpeech'' k
      then map_option (\<lambda>s. v\<lparr>wdPartOfSpeech := s\<rparr>) (unmarshal_string j (wdPartOfSpeech v))
      else if is_field ''definitions'' k
      then map_option (\<lambda>ds. v\<lparr>wdDefinitions := ds\<rparr>) (unmarshal_slice unmarshal_wordDefinition j)
      else Some v)"

definition unmarshal_wordMeaning :: "json \<Rightarrow> wordMeaning option" where
  "unmarshal_wordMeaning j =
     unmarshal_struct wordMeaning_field j \<lparr>wdPartOfSpeech = [], wdDefinitions = []\<rparr>"

definition wordData_field :: "string \<Rightarrow> json \<Rightarrow> wordData \<Rightarrow> wordData option" where
  "wordData_field k j v =
     (if is_field ''word'' k
      then map_option (\<lambda>s. v\<lparr>wdWord := s\<rparr>) (unmarshal_string j (wdWord v))
      else if is_field ''meanings'' k
      then map_option (\<lambda>ms. v\<lparr>wdMeanings := ms\<rparr>) (unmarshal_slice unmarshal_wordMeaning j)
      else Some v)"

definition unmarshal_wordData :: "json \<Rightarrow> wordData option" where
  "unmarshal_wordData j = unmarshal_struct wordData_field j \<lparr>wdWord = [], wdMeanings = []\<rparr>"

text \<open>\<open>json.Unmarshal(body, &notFound)\<close> and \<open>json.Unmarshal(body, &apiData)\<close>.\<close>

definition unmarshal_notFound :: "body \<Rightarrow> wordNotFound option" where
  "unmarshal_notFound b =
     (case b of None \<Rightarrow> None
      | Some j \<Rightarrow> unmarshal_struct wordNotFound_field j \<lparr>Title = []\<rparr>)"

definition unmarshal_apiData :: "body \<Rightarrow> wordData list option" where
  "unmarshal_apiData b =
     (case b of None \<Rightarrow> None | Some j \<Rightarrow> unmarshal_slice unmarshal_wordData j)"

subsection \<open>The query path\<close>

definition dq :: string where
  "dq = [CHR 0x22]"

text \<open>The three fixed lines and the line of one meaning, as \<open>fmt.Sprintf\<close> builds them.\<close>

definition pending_line :: "string \<Rightarrow> string" where
  "pending_line q =
     q @ '' 1 TXT '' @ dq @ ''word definition is being fetched. Try again in a few seconds.'' @ dq"

definition not_found_line :: "string \<Rightarrow> string" where
  "not_found_line w =
     w @ '' 1 TXT '' @ dq
       @ ''word definition was not found in our dictionary, please try other sources.'' @ dq"

definition unavailable_line :: "string \<Rightarrow> string" where
  "unavailable_line w =
     w @ '' 1 TXT '' @ dq @ ''dictionary unavailable, try again later.'' @ dq"

definition meaning_line :: "string \<Rightarrow> Meaning \<Rightarrow> string" where
  "meaning_line w m =
     w @ '' 1 TXT '' @ dq @ PartOfSpeech m @ '':'' @ dq @ '' '' @ dq @ Definition m @ dq"

text \<open>The end of \<open>get\<close>: the lines of an entry that is in the cache.\<close>

definition render :: "string \<Rightarrow> entry \<Rightarrow> string list" where
  "render w dat =
     (if Valid dat then
        (if Found dat then map (meaning_line w) (Meanings dat)
         else [not_found_line w])
      else [unavailable_line w])"

text \<open>
  \<open>get\<close> reads the clock once to test the expiry (only when the word is cached) and
  once more to set the new one. The send to \<open>fetchQueue\<close> is the \<open>select\<close> with a
  \<open>default\<close>: whether the dispatcher takes the word does not change what \<open>get\<close>
  does, so the attempt is an event and nothing else.
\<close>

definition get ::
  "Dictionary \<Rightarrow> (nat \<Rightarrow> Time) \<Rightarrow> string
     \<Rightarrow> (string list \<times> error option) \<times> Dictionary \<times> event list" where
  "get d clk w =
     (let ok = (data d w \<noteq> None);
          dat = (case data d w of Some e \<Rightarrow> e | None \<Rightarrow> zero_entry);
          expired = (ok \<and> time_Before (ExpiresAt dat) (clk 0));
          dat1 = (if expired then dat\<lparr>ExpiresAt := time_Add (clk 1) Minute\<rparr> else dat);
          d1 = (if expired then d\<lparr>data := (data d)(w \<mapsto> dat1)\<rparr> else d);
          evs = [RLock, MapRead, RUnlock]
                @ (if \<not> ok \<or> expired
                   then TrySend w # (if expired then [Lock, MapWrite, Unlock] else [])
                   else [])
      in if \<not> ok then (([], Some errQueued), d1, evs)
         else ((render w dat1, None), d1, evs))"

definition Query ::
  "(string \<Rightarrow> string) \<Rightarrow> Dictionary \<Rightarrow> (nat \<Rightarrow> Time) \<Rightarrow> string
     \<Rightarrow> (string list \<times> error option) \<times> Dictionary \<times> event list" where
  "Query ToLower d clk q0 =
     (let q = ToLower q0 in
      case get d clk q of
        ((out, err), d1, evs) \<Rightarrow>
          (if err \<noteq> None then
             (if err = Some errQueued then (([pending_line q], None), d1, evs)
              else (([], err), d1, evs))
           else ((out, None), d1, evs)))"

subsection \<open>The remote lookup\<close>

text \<open>
  What the HTTP exchange can come to: \<open>http.NewRequest\<close> fails, \<open>client.Do\<close> fails,
  reading the body fails, or there is a status code and a body.
\<close>

datatype http_outcome =
    NewRequestFailed
  | DoFailed
  | ReadAllFailed
  | Response int body

text \<open>\<open>strings.Trim\<close> with a cutset of ASCII characters.\<close>

definition Trim :: "string \<Rightarrow> string \<Rightarrow> string" where
  "Trim s cutset =
     rev (dropWhile (\<lambda>c. c \<in> set cutset) (rev (dropWhile (\<lambda>c. c \<in> set cutset) s)))"

text \<open>
  The loop over \<open>first.Meanings\<close>: an entry without definitions is skipped, of the
  others the first definition is kept.
\<close>

fun keep_first_definitions :: "wordMeaning list \<Rightarrow> Meaning list" where
  "keep_first_definitions [] = []"
| "keep_first_definitions (p # ps) =
     (case wdDefinitions p of
        [] \<Rightarrow> keep_first_definitions ps
      | df # _ \<Rightarrow>
          \<lparr>PartOfSpeech = wdPartOfSpeech p, Definition = Trim (wdDefinition df) '' ''\<rparr>
            # keep_first_definitions ps)"

definition first_meanings :: "wordData list \<Rightarrow> Meaning list" where
  "first_meanings apiData =
     (case apiData of [] \<Rightarrow> [] | first # _ \<Rightarrow> keep_first_definitions (wdMeanings first))"

text \<open>
  \<open>fetchAPI\<close> reads the clock when it builds \<open>bad\<close>, again when it builds \<open>out\<close>
  and a third time when the word is found. \<open>AddDate t y m d\<close> stands for
  \<open>t.AddDate(y, m, d)\<close>.
\<close>

definition fetchAPI ::
  "(Time \<Rightarrow> int \<Rightarrow> int \<Rightarrow> int \<Rightarrow> Time) \<Rightarrow> Dictionary \<Rightarrow> (nat \<Rightarrow> Time) \<Rightarrow> http_outcome
     \<Rightarrow> string \<Rightarrow> (entry \<times> error option) \<times> event list" where
  "fetchAPI AddDate d clk http w =
     (let bad = \<lparr>Word = w, Meanings = [], Valid = False, Found = False,
                 ExpiresAt = time_Add (clk 0) (Minute * 10)\<rparr>;
          req = HttpDo (apiUrl @ w) (UserAgent (opt d))
      in case http of
           NewRequestFailed \<Rightarrow> ((bad, Some errNewRequest), [])
         | DoFailed \<Rightarrow> ((bad, Some errClientDo), [req])
         | ReadAllFailed \<Rightarrow> ((bad, Some errReadAll), [req])
         | Response status b \<Rightarrow>
             (if status = 500 \<or> status = 429 then ((bad, Some errFetching), [req])
              else
                (let out = \<lparr>Word = w, Meanings = [], Valid = True, Found = False,
                            ExpiresAt = AddDate (clk 1) 0 1 0\<rparr>
                 in if unmarshal_notFound b \<noteq> None then ((out, Some errNotFound), [req])
                    else
                      (case unmarshal_apiData b of
                         None \<Rightarrow> ((bad, Some errUnmarshal), [req])
                       | Some apiData \<Rightarrow>
                           ((out\<lparr>Found := True,
                                 ExpiresAt := AddDate (clk 2) 1 0 0,
                                 Meanings := first_meanings apiData\<rparr>, None), [req])))))"

subsection \<open>The dispatcher\<close>

text \<open>
  One word received from \<open>fetchQueue\<close>, with what the outside world answers while the
  dispatcher handles it: the limiter, the clock and the HTTP exchange.
\<close>

record arrival =
  arr_word :: string
  arr_allow :: bool
  arr_clock :: "nat \<Rightarrow> Time"
  arr_http :: http_outcome

text \<open>One turn of the \<open>for\<close> loop of \<open>runFetchQueue\<close>.\<close>

definition fetch_step ::
  "(Time \<Rightarrow> int \<Rightarrow> int \<Rightarrow> int \<Rightarrow> Time) \<Rightarrow> Dictionary \<Rightarrow> arrival \<Rightarrow> Dictionary \<times> event list" where
  "fetch_step AddDate d a =
     (let w = arr_word a in
      if \<not> arr_allow a then (d, [LogRateLimit])
      else
        (case fetchAPI AddDate d (arr_clock a) (arr_http a) w of
           ((res, err), evs) \<Rightarrow>
             (d\<lparr>data := (data d)(w \<mapsto> res)\<rparr>,
              evs @ [Lock, MapWrite, Unlock]
                  @ (case err of
                       None \<Rightarrow> []
                     | Some e \<Rightarrow> if e \<noteq> errNotFound then [LogFetchError e] else []))))"

text \<open>
  The loop never ends; the model runs it over the words that have arrived so far.
\<close>

fun runFetchQueue ::
  "(Time \<Rightarrow> int \<Rightarrow> int \<Rightarrow> int \<Rightarrow> Time) \<Rightarrow> Dictionary \<Rightarrow> arrival list
     \<Rightarrow> Dictionary \<times> event list" where
  "runFetchQueue AddDate d [] = (d, [])"
| "runFetchQueue AddDate d (a # as) =
     (case fetch_step AddDate d a of
        (d1, evs1) \<Rightarrow>
          (case runFetchQueue AddDate d1 as of
             (d2, evs2) \<Rightarrow> (d2, evs1 @ evs2)))"

subsection \<open>Snapshots\<close>

text \<open>
  The gob codec is a parameter. \<open>gobEncode m\<close> is the outcome of
  \<open>gob.NewEncoder(buf).Encode(d.data)\<close>. \<open>gobDecode b\<close> is what
  \<open>gob.NewDecoder(buf).Decode(&d.data)\<close> reads from \<open>b\<close>: the entries decoded, and
  the error if there is one. The decoder stores each entry it reads into the map that
  \<open>d.data\<close> already is, so the entries of the map that are not in \<open>b\<close> stay.
\<close>

type_synonym bytes = string

definition Dump ::
  "((string \<rightharpoonup> entry) \<Rightarrow> error + bytes) \<Rightarrow> Dictionary \<Rightarrow> (bytes \<times> error option) \<times> event list" where
  "Dump gobEncode d =
     (case gobEncode (data d) of
        Inl err \<Rightarrow> (([], Some err), [RLock, MapRead, RUnlock])
      | Inr b \<Rightarrow> ((b, None), [RLock, MapRead, RUnlock]))"

definition Load ::
  "(bytes \<Rightarrow> (string \<rightharpoonup> entry) \<times> error option) \<Rightarrow> Dictionary \<Rightarrow> bytes
     \<Rightarrow> error option \<times> Dictionary \<times> event list" where
  "Load gobDecode d b =
     (case gobDecode b of
        (m, err) \<Rightarrow> (err, d\<lparr>data := data d ++ m\<rparr>, [RLock, MapWrite, RUnlock]))"

subsection \<open>The lock discipline\<close>

text \<open>
  The state of \<open>mut\<close> along a list of events of one goroutine, and the discipline of
  a reader/writer lock: the map is read with the lock held in either form and written
  with the lock held in the exclusive form only.
\<close>

datatype lock_state = Free | Shared | Exclusive

fun disciplined :: "lock_state \<Rightarrow> event list \<Rightarrow> bool" where
  "disciplined l [] = True"
| "disciplined l (RLock # es) = disciplined Shared es"
| "disciplined l (RUnlock # es) = disciplined Free es"
| "disciplined l (Lock # es) = disciplined Exclusive es"
| "disciplined l (Unlock # es) = disciplined Free es"
| "disciplined l (MapRead # es) = (l \<noteq> Free \<and> disciplined l es)"
| "disciplined l (MapWrite # es) = (l = Exclusive \<and> disciplined l es)"
| "disciplined l (_ # es) = disciplined l es"

subsection \<open>The claims' vocabulary\<close>


fun string_or_null :: "json \<Rightarrow> bool" where
  "string_or_null JNull = True"
| "string_or_null (JString s) = True"
| "string_or_null _ = False"

text \<open>The values of the members of an object whose key matches the field \<open>Title\<close>.\<close>

definition title_members :: "(string \<times> json) list \<Rightarrow> json list" where
  "title_members ms = map snd (filter (\<lambda>m. is_field ''title'' (fst m)) ms)"



subsection \<open>Concrete inputs\<close>

text \<open>
  For evaluating the model at concrete inputs: \<open>strings.ToLower\<close> as it is on ASCII
  strings, a clock that advances by one nanosecond at each reading, and stand-ins for
  the two library functions the package does not determine: a calendar of 30-day months
  and 365-day years, and a codec that knows one snapshot.
\<close>

definition ToLower_ASCII :: "string \<Rightarrow> string" where
  "ToLower_ASCII s = map lowerASCII s"

definition clock_from :: "Time \<Rightarrow> nat \<Rightarrow> Time" where
  "clock_from t i = t + int i"

definition AddDate_flat :: "Time \<Rightarrow> int \<Rightarrow> int \<Rightarrow> int \<Rightarrow> Time" where
  "AddDate_flat t y m d = t + (y * 365 + m * 30 + d) * (24 * 60 * Minute)"

definition example_cache :: "string \<rightharpoonup> entry" where
  "example_cache =
     [''run'' \<mapsto> \<lparr>Word = ''run'',
                   Meanings = [\<lparr>PartOfSpeech = ''noun'', Definition = ''a pace''\<rparr>],
                   Valid = True, Found = True, ExpiresAt = 1000\<rparr>]"



section \<open>Properties\<close>

subsection \<open>The lines of an entry\<close>

lemma count_dq_pending:
  "count_list (pending_line w) (CHR 0x22) = count_list w (CHR 0x22) + 2"
  by (simp add: pending_line_def dq_def)

lemma count_dq_meaning:
  "count_list w (CHR 0x22) + 4 \<le> count_list (meaning_line w m) (CHR 0x22)"
  by (simp add: meaning_line_def dq_def)

text \<open>A meaning's line has at least four quotation marks after the word, the pending line two.\<close>

lemma meaning_line_not_pending: "pending_line w \<noteq> meaning_line w m"
proof
  assume "pending_line w = meaning_line w m"
  then have "count_list (meaning_line w m) (CHR 0x22) = count_list (pending_line w) (CHR 0x22)"
    by simp
  with count_dq_pending [of w] count_dq_meaning [of w m] show False by simp
qed

lemma pending_not_rendered: "pending_line w \<notin> set (render w e)"
proof -
  have "pending_line w \<noteq> not_found_line w"
    by (simp add: not_found_line_def pending_line_def)
  moreover have "pending_line w \<noteq> unavailable_line w"
    by (simp add: unavailable_line_def pending_line_def)
  moreover have "\<And>m. pending_line w \<noteq> meaning_line w m"
    by (rule meaning_line_not_pending)
  ultimately show ?thesis
    by (auto simp: render_def)
qed

lemma render_ExpiresAt: "render w (e\<lparr>ExpiresAt := t\<rparr>) = render w e"
  by (simp add: render_def)

subsection \<open>Queries\<close>


lemma ToLower_ASCII_Run: "ToLower_ASCII ''Run'' = ''run''"
  by code_simp

text \<open>
  Claim C5. A word that is not in the cache: \<open>Query\<close> returns the pending line, alone,
  and no error; the dictionary is as it was; and the events are one read of the map
  under the shared lock and one attempt to send the lower-cased word to the queue.
\<close>

theorem Query_absent_word:
  assumes "data d (ToLower q) = None"
  shows "Query ToLower d clk q =
           (([pending_line (ToLower q)], None), d,
            [RLock, MapRead, RUnlock, TrySend (ToLower q)])"
  using assms by (simp add: Query_def get_def Let_def)

theorem Query_absent_word_witness:
  "data (New \<lparr>UserAgent = ''ua''\<rparr>) (ToLower_ASCII ''Run'') = None
   \<and> Query ToLower_ASCII (New \<lparr>UserAgent = ''ua''\<rparr>) (clock_from 0) ''Run'' =
        (([pending_line ''run''], None), New \<lparr>UserAgent = ''ua''\<rparr>,
         [RLock, MapRead, RUnlock, TrySend ''run''])"
proof -
  have absent: "data (New \<lparr>UserAgent = ''ua''\<rparr>) (ToLower_ASCII ''Run'') = None"
    by (simp add: New_def)
  from Query_absent_word [where ToLower = ToLower_ASCII and q = "''Run''"
      and d = "New \<lparr>UserAgent = ''ua''\<rparr>" and clk = "clock_from 0", OF absent]
    absent ToLower_ASCII_Run
  show ?thesis by simp
qed

text \<open>
  Claim C8. \<open>Query\<close> never returns an error: \<open>get\<close> returns no error or
  \<open>errQueued\<close>, and when it returns \<open>errQueued\<close> the answer of \<open>Query\<close> is the
  pending line with no error.
\<close>

theorem Query_never_fails:
  "snd (fst (Query ToLower d clk q)) = None
   \<and> snd (fst (get d clk w)) \<in> {None, Some errQueued}
   \<and> (if snd (fst (get d clk (ToLower q))) = Some errQueued
      then fst (Query ToLower d clk q) = ([pending_line (ToLower q)], None)
      else fst (Query ToLower d clk q) = (fst (fst (get d clk (ToLower q))), None))"
  by (simp add: Query_def get_def Let_def)

theorem Query_never_fails_witness:
  "snd (fst (Query ToLower_ASCII (New \<lparr>UserAgent = ''ua''\<rparr>) (clock_from 0) ''Run'')) = None"
  by (rule conjunct1 [OF Query_never_fails])

text \<open>
  Claim C4. A word whose entry has expired (its \<open>ExpiresAt\<close> is before the reading of
  the clock that \<open>get\<close> tests it against): \<open>Query\<close> returns the lines of the entry
  that was cached, and no error; the pending line is not among them; and the entry is
  stored again with \<open>ExpiresAt\<close> one minute after the next reading of the clock,
  under the exclusive lock, after one attempt to send the word to the queue.
\<close>

theorem Query_stale_entry:
  assumes "data d (ToLower q) = Some e"
    and "time_Before (ExpiresAt e) (clk 0)"
  shows "Query ToLower d clk q =
           ((render (ToLower q) e, None),
            d\<lparr>data := (data d)(ToLower q \<mapsto> e\<lparr>ExpiresAt := clk 1 + 60 * 1000000000\<rparr>)\<rparr>,
            [RLock, MapRead, RUnlock, TrySend (ToLower q), Lock, MapWrite, Unlock])
       \<and> pending_line (ToLower q) \<notin> set (render (ToLower q) e)"
  using assms
  by (simp add: Query_def get_def Let_def render_ExpiresAt pending_not_rendered
        time_Add_def Minute_def)

theorem Query_stale_entry_witness:
  "data \<lparr>data = example_cache, limiter = NewLimiter 10 1, opt = \<lparr>UserAgent = ''ua''\<rparr>\<rparr>
     (ToLower_ASCII ''Run'') = Some \<lparr>Word = ''run'',
                   Meanings = [\<lparr>PartOfSpeech = ''noun'', Definition = ''a pace''\<rparr>],
                   Valid = True, Found = True, ExpiresAt = 1000\<rparr>
   \<and> time_Before 1000 (clock_from 2000 0)
   \<and> fst (Query ToLower_ASCII
            \<lparr>data = example_cache, limiter = NewLimiter 10 1, opt = \<lparr>UserAgent = ''ua''\<rparr>\<rparr>
            (clock_from 2000) ''Run'')
       = ([meaning_line ''run'' \<lparr>PartOfSpeech = ''noun'', Definition = ''a pace''\<rparr>], None)
   \<and> map_option ExpiresAt
        (data (fst (snd (Query ToLower_ASCII
            \<lparr>data = example_cache, limiter = NewLimiter 10 1, opt = \<lparr>UserAgent = ''ua''\<rparr>\<rparr>
            (clock_from 2000) ''Run''))) ''run'') = Some 60000002001"
proof -
  let ?e = "\<lparr>Word = ''run'',
             Meanings = [\<lparr>PartOfSpeech = ''noun'', Definition = ''a pace''\<rparr>],
             Valid = True, Found = True, ExpiresAt = 1000\<rparr>"
  let ?d = "\<lparr>data = example_cache, limiter = NewLimiter 10 1, opt = \<lparr>UserAgent = ''ua''\<rparr>\<rparr>"
  have cached: "data ?d (ToLower_ASCII ''Run'') = Some ?e"
    by (simp add: ToLower_ASCII_Run example_cache_def)
  have stale: "time_Before (ExpiresAt ?e) (clock_from 2000 0)"
    by (simp add: time_Before_def clock_from_def)
  from Query_stale_entry [where ToLower = ToLower_ASCII and q = "''Run''" and d = ?d
      and e = ?e and clk = "clock_from 2000", OF cached stale]
    cached stale
  show ?thesis
    by (simp add: ToLower_ASCII_Run render_def clock_from_def)
qed


subsection \<open>The dispatcher\<close>

lemma fetchAPI_events:
  "snd (fetchAPI AddDate d clk http w) =
     (if http = NewRequestFailed then [] else [HttpDo (apiUrl @ w) (UserAgent (opt d))])"
  by (simp add: fetchAPI_def Let_def split: http_outcome.splits option.splits)


lemma fetch_step_other_words:
  "w \<noteq> arr_word a \<Longrightarrow> data (fst (fetch_step AddDate d a)) w = data d w"
  by (simp add: fetch_step_def Let_def case_prod_beta)

text \<open>
  Claim C7. The limiter is made with rate 10 and burst 1. When it refuses a word taken
  from the queue, the turn of the loop leaves the dictionary as it was and its only
  event is the log line: no request goes out and the map is not written. The loop then
  handles the words that follow as if the refused one had not arrived.
\<close>

theorem rate_limited_request_dropped:
  assumes "\<not> arr_allow a"
  shows "limiter (New opts) = \<lparr>lim_rate = 10, lim_burst = 1\<rparr>
       \<and> fetch_step AddDate d a = (d, [LogRateLimit])
       \<and> runFetchQueue AddDate d (a # as) =
           (fst (runFetchQueue AddDate d as), LogRateLimit # snd (runFetchQueue AddDate d as))"
  using assms
  by (simp add: fetch_step_def New_def NewLimiter_def apiRateLimit_def
        apiRateLimitBurstSize_def split: prod.splits)

theorem rate_limited_request_dropped_witness:
  "\<not> arr_allow \<lparr>arr_word = ''run'', arr_allow = False, arr_clock = clock_from 0,
                  arr_http = DoFailed\<rparr>
   \<and> runFetchQueue AddDate_flat (New \<lparr>UserAgent = ''ua''\<rparr>)
        [\<lparr>arr_word = ''run'', arr_allow = False, arr_clock = clock_from 0,
          arr_http = DoFailed\<rparr>]
       = (New \<lparr>UserAgent = ''ua''\<rparr>, [LogRateLimit])"
proof -
  let ?a = "\<lparr>arr_word = ''run'', arr_allow = False, arr_clock = clock_from 0,
             arr_http = DoFailed\<rparr>"
  have denied: "\<not> arr_allow ?a" by simp
  from rate_limited_request_dropped [OF denied, of "\<lparr>UserAgent = ''ua''\<rparr>" AddDate_flat
      "New \<lparr>UserAgent = ''ua''\<rparr>" "[]"] denied
  show ?thesis by simp
qed

subsection \<open>Locks\<close>

text \<open>The query path, the dispatcher and \<open>Dump\<close> keep the discipline.\<close>

lemma get_disciplined: "disciplined Free (snd (snd (get d clk w)))"
  by (simp add: get_def Let_def)

lemma Query_disciplined: "disciplined Free (snd (snd (Query ToLower d clk q)))"
  using get_disciplined [of d clk "ToLower q"]
  by (simp add: Query_def Let_def case_prod_beta)

lemma fetch_step_disciplined: "disciplined Free (snd (fetch_step AddDate d a))"
  by (simp add: fetch_step_def Let_def case_prod_beta fetchAPI_events split: option.splits)

lemma Dump_disciplined: "disciplined Free (snd (Dump gobEncode d))"
  by (simp add: Dump_def split: sum.splits)

text \<open>
  Claim C10. \<open>Load\<close> does not do what the claim says: it writes the map while it
  holds the lock in the shared form (\<open>RLock\<close>, \<open>RUnlock\<close>), whatever the bytes and
  the dictionary are, where the two other writers take \<open>Lock\<close>.
\<close>

theorem Load_holds_shared_lock:
  "snd (snd (Load gobDecode d b)) = [RLock, MapWrite, RUnlock]
   \<and> \<not> disciplined Free (snd (snd (Load gobDecode d b)))"
  by (simp add: Load_def split: prod.splits)

subsection \<open>Snapshots\<close>


text \<open>\<open>Load\<close> adds to the map: a word that is not in the snapshot keeps its entry.\<close>

lemma Load_keeps_other_words:
  "fst (gobDecode b) w = None \<Longrightarrow> data (fst (snd (Load gobDecode d0 b))) w = data d0 w"
  by (simp add: Load_def case_prod_beta map_add_def)




subsection \<open>The remote lookup\<close>

lemma fetchAPI_not_found:
  assumes "unmarshal_notFound b \<noteq> None" and "status \<noteq> 500" and "status \<noteq> 429"
  shows "fst (fetchAPI AddDate d clk (Response status b) w) =
           (\<lparr>Word = w, Meanings = [], Valid = True, Found = False,
             ExpiresAt = AddDate (clk 1) 0 1 0\<rparr>, Some errNotFound)"
  using assms by (simp add: fetchAPI_def Let_def)








subsection \<open>Bodies that are JSON objects\<close>

lemma unmarshal_string_ok: "unmarshal_string j cur \<noteq> None \<longleftrightarrow> string_or_null j"
  by (cases j) (simp_all add: unmarshal_string_def)

text \<open>
  Decoding an object into \<open>wordNotFound\<close> succeeds when every member that matches the
  field \<open>Title\<close> holds a string or null, and only then.
\<close>

lemma unmarshal_title_members:
  "unmarshal_members wordNotFound_field ms v \<noteq> None
     \<longleftrightarrow> list_all string_or_null (title_members ms)"
proof (induction ms arbitrary: v)
  case Nil
  show ?case by (simp add: title_members_def)
next
  case (Cons m ms)
  obtain k j where m: "m = (k, j)" by (cases m)
  show ?case
  proof (cases "is_field ''title'' k")
    case False
    with Cons m show ?thesis
      by (simp add: wordNotFound_field_def title_members_def)
  next
    case True
    show ?thesis
    proof (cases "unmarshal_string j (Title v)")
      case None
      with True m unmarshal_string_ok [of j "Title v"] show ?thesis
        by (simp add: wordNotFound_field_def title_members_def)
    next
      case (Some s)
      with True m unmarshal_string_ok [of j "Title v"] Cons [of "v\<lparr>Title := s\<rparr>"] show ?thesis
        by (simp add: wordNotFound_field_def title_members_def)
    qed
  qed
qed

text \<open>
  Claim C9, as amended. A response whose status is neither 500 nor 429 and whose body
  is a JSON object: when every member of the object named \<open>title\<close> (in any case of
  the letters) holds a string or null, and so when there is no such member,
  \<open>fetchAPI\<close> returns the valid, not found entry with the expiry of one month and
  \<open>errNotFound\<close>; when a member named \<open>title\<close> holds a number, a boolean, an array
  or an object, it returns the failure placeholder and the decoding error.
\<close>

theorem object_body_not_found:
  assumes "status \<noteq> 500" and "status \<noteq> 429"
  shows "fst (fetchAPI AddDate d clk (Response status (Some (JObject ms))) w) =
           (if list_all string_or_null (title_members ms)
            then (\<lparr>Word = w, Meanings = [], Valid = True, Found = False,
                   ExpiresAt = AddDate (clk 1) 0 1 0\<rparr>, Some errNotFound)
            else (\<lparr>Word = w, Meanings = [], Valid = False, Found = False,
                   ExpiresAt = clk 0 + 10 * (60 * 1000000000)\<rparr>, Some errUnmarshal))"
proof -
  have nf: "unmarshal_notFound (Some (JObject ms)) \<noteq> None
              \<longleftrightarrow> list_all string_or_null (title_members ms)"
    using unmarshal_title_members [of ms "\<lparr>Title = []\<rparr>"]
    by (simp add: unmarshal_notFound_def unmarshal_struct_def del: not_None_eq)
  have arr: "unmarshal_apiData (Some (JObject ms)) = None"
    by (simp add: unmarshal_apiData_def unmarshal_slice_def)
  show ?thesis
  proof (cases "list_all string_or_null (title_members ms)")
    case True
    with nf assms show ?thesis
      by (simp add: fetchAPI_not_found)
  next
    case False
    with nf have "unmarshal_notFound (Some (JObject ms)) = None" by simp
    with False arr assms show ?thesis
      by (simp add: fetchAPI_def Let_def time_Add_def Minute_def)
  qed
qed

text \<open>The empty object, with status 404.\<close>

theorem object_body_not_found_witness:
  "(404::int) \<noteq> 500 \<and> (404::int) \<noteq> 429
   \<and> fst (fetchAPI AddDate_flat (New \<lparr>UserAgent = ''ua''\<rparr>) (clock_from 0)
           (Response 404 (Some (JObject []))) ''zzz'')
       = (\<lparr>Word = ''zzz'', Meanings = [], Valid = True, Found = False,
           ExpiresAt = AddDate_flat 1 0 1 0\<rparr>, Some errNotFound)"
proof -
  have status: "(404::int) \<noteq> 500" "(404::int) \<noteq> 429" by simp_all
  from object_body_not_found [OF status, of AddDate_flat "New \<lparr>UserAgent = ''ua''\<rparr>"
      "clock_from 0" "[]" "''zzz''"]
  show ?thesis by (simp add: title_members_def clock_from_def)
qed

text \<open>
  The claim as it was stated fails on the object \<open>{"title": 1}\<close>, with status 404:
  the entry is the failure placeholder, with the expiry of ten minutes.
\<close>

theorem object_body_not_found_counterexample:
  "fst (fetchAPI AddDate_flat (New \<lparr>UserAgent = ''ua''\<rparr>) (clock_from 0)
          (Response 404 (Some (JObject [(''title'', JNumber ''1'')]))) ''zzz'')
     = (\<lparr>Word = ''zzz'', Meanings = [], Valid = False, Found = False,
         ExpiresAt = 600000000000\<rparr>, Some errUnmarshal)"
  by code_simp

subsection \<open>The meanings of a word that is found\<close>

text \<open>What \<open>strings.Trim\<close> takes away is in the cutset, and it leaves none at either end.\<close>

lemma Trim_split:
  "\<exists>l r. s = l @ Trim s cs @ r \<and> set l \<subseteq> set cs \<and> set r \<subseteq> set cs"
proof -
  let ?P = "\<lambda>c. c \<in> set cs"
  let ?t = "dropWhile ?P s"
  have "rev (takeWhile ?P (rev ?t) @ dropWhile ?P (rev ?t)) = ?t"
    by (simp only: takeWhile_dropWhile_id rev_rev_ident)
  then have t: "?t = Trim s cs @ rev (takeWhile ?P (rev ?t))"
    unfolding Trim_def rev_append by (rule sym)
  have "s = takeWhile ?P s @ ?t" by simp
  with t have "s = takeWhile ?P s @ Trim s cs @ rev (takeWhile ?P (rev ?t))" by simp
  moreover have "set (takeWhile ?P s) \<subseteq> set cs"
    by (auto dest: set_takeWhileD)
  moreover have "set (rev (takeWhile ?P (rev ?t))) \<subseteq> set cs"
    by (auto dest: set_takeWhileD)
  ultimately show ?thesis by blast
qed

lemma Trim_ends:
  assumes "Trim s cs \<noteq> []"
  shows "hd (Trim s cs) \<notin> set cs \<and> last (Trim s cs) \<notin> set cs"
proof -
  let ?P = "\<lambda>c. c \<in> set cs"
  let ?t = "dropWhile ?P s"
  let ?u = "dropWhile ?P (rev ?t)"
  have u: "?u \<noteq> []" using assms by (simp add: Trim_def)
  then have "\<not> ?P (hd ?u)" by (rule hd_dropWhile)
  then have l: "last (Trim s cs) \<notin> set cs"
    using u by (simp add: Trim_def last_rev)
  have "?t \<noteq> []"
  proof
    assume e: "?t = []"
    have "?u = []" unfolding e by simp
    with u show False by simp
  qed
  then have ht: "\<not> ?P (hd ?t)" by (rule hd_dropWhile)
  have "rev (takeWhile ?P (rev ?t) @ ?u) = ?t"
    by (simp only: takeWhile_dropWhile_id rev_rev_ident)
  then have "?t = Trim s cs @ rev (takeWhile ?P (rev ?t))"
    unfolding Trim_def rev_append by (rule sym)
  then have "hd ?t = hd (Trim s cs)"
    using assms by (metis hd_append2)
  with ht l show ?thesis by simp
qed







end
